theory Spec2Isabelle
  imports Main "HOL-Library.Word"
begin

section \<open>JavaScript values as the handler sees them\<close>

subsection \<open>Strings\<close>

text \<open>
  A JavaScript string is a sequence of 16-bit code units; \<open>length\<close>, \<open>slice\<close>,
  \<open>startsWith\<close> and the regular expressions of the handler all work on code units.
  \<open>js\<close> writes an ASCII literal as such a sequence.
\<close>

type_synonym unit16 = "16 word"
type_synonym jsstring = "unit16 list"

definition js :: "string \<Rightarrow> jsstring" where
  "js s = map of_char s"

text \<open>
  The code units that \<open>String.prototype.trim\<close> and \<open>parseInt\<close> strip: ECMAScript's
  WhiteSpace (TAB, VT, FF, SP, NBSP, ZWNBSP and the category Zs) and LineTerminator
  (LF, CR, LS, PS).
\<close>

definition is_space :: "unit16 \<Rightarrow> bool" where
  "is_space c \<longleftrightarrow>
     c \<in> set [0x9, 0xA, 0xB, 0xC, 0xD, 0x20, 0xA0, 0x1680, 0x2028, 0x2029, 0x202F, 0x205F,
              0x3000, 0xFEFF]
     \<or> (0x2000 \<le> c \<and> c \<le> 0x200A)"

definition trim :: "jsstring \<Rightarrow> jsstring" where
  "trim s = rev (dropWhile is_space (rev (dropWhile is_space s)))"

definition hash :: unit16 where
  "hash = 0x23"

text \<open>\<open>s || d\<close> on strings: the empty string is the only falsy string.\<close>

definition str_or :: "jsstring \<Rightarrow> jsstring \<Rightarrow> jsstring" where
  "str_or s d = (if s = [] then d else s)"

subsection \<open>Numbers\<close>

text \<open>
  The handler looks at a number in two ways only: whether it is falsy (\<open>+0\<close> and \<open>-0\<close>;
  JSON has no NaN) and what \<open>ToString\<close> makes of it. A number is represented by these two
  observations. \<open>num n\<close> is the number with the integer value \<open>n\<close>, for \<open>n\<close> of magnitude
  below \<open>10^21\<close>, where \<open>ToString\<close> writes plain decimal digits.
\<close>

datatype number = Number (is_zero: bool) (image: jsstring)

fun digits :: "nat \<Rightarrow> jsstring" where
  "digits n = (if n < 10 then [of_nat (48 + n)] else digits (n div 10) @ [of_nat (48 + n mod 10)])"

declare digits.simps [simp del]

definition decimal :: "int \<Rightarrow> jsstring" where
  "decimal n = (if n < 0 then 0x2D # digits (nat (- n)) else digits (nat n))"

definition num :: "int \<Rightarrow> number" where
  "num n = Number (n = 0) (decimal n)"

subsection \<open>Values, errors, conversions\<close>

text \<open>
  The values that \<open>JSON.parse\<close> and the body parser produce. An object is the list of its
  own properties (keys distinct); \<open>undefined\<close>, the result of reading a property that is
  not there, is \<open>None\<close> of \<open>json option\<close>.
\<close>

datatype json =
    JNull
  | JBool bool
  | JNum number
  | JStr jsstring
  | JArr "json list"
  | JObj "(jsstring \<times> json) list"

datatype error = TypeError | UpstreamError

definition truthy :: "json \<Rightarrow> bool" where
  "truthy v = (case v of
       JNull \<Rightarrow> False
     | JBool b \<Rightarrow> b
     | JNum n \<Rightarrow> \<not> is_zero n
     | JStr s \<Rightarrow> s \<noteq> []
     | JArr _ \<Rightarrow> True
     | JObj _ \<Rightarrow> True)"

text \<open>\<open>x || d\<close>, where \<open>x\<close> may be \<open>undefined\<close>.\<close>

definition or_else :: "json option \<Rightarrow> json \<Rightarrow> json" where
  "or_else x d = (case x of None \<Rightarrow> d | Some v \<Rightarrow> if truthy v then v else d)"

text \<open>A destructuring default \<open>{ name = d }\<close>: it applies to \<open>undefined\<close> only.\<close>

definition dflt :: "json \<Rightarrow> json option \<Rightarrow> json" where
  "dflt d x = (case x of None \<Rightarrow> d | Some v \<Rightarrow> v)"

text \<open>
  \<open>ToString\<close>, as \<open>String(h)\<close>, a template literal and a computed property key apply it.
  An array is joined with commas, \<open>null\<close> elements giving the empty string. An object from
  JSON has no callable property of its own: with an own \<open>toString\<close> key neither that key
  nor the inherited \<open>valueOf\<close> yields a primitive and the conversion throws a TypeError;
  otherwise \<open>Object.prototype.toString\<close> answers.
\<close>

fun to_string :: "json \<Rightarrow> error + jsstring"
  and join_elements :: "json list \<Rightarrow> error + jsstring"
where
  "to_string JNull = Inr (js ''null'')"
| "to_string (JBool b) = Inr (if b then js ''true'' else js ''false'')"
| "to_string (JNum n) = Inr (image n)"
| "to_string (JStr s) = Inr s"
| "to_string (JArr xs) = join_elements xs"
| "to_string (JObj ps) =
     (if map_of ps (js ''toString'') = None then Inr (js ''[object Object]'') else Inl TypeError)"
| "join_elements [] = Inr []"
| "join_elements (x # xs) =
     (case (if x = JNull then Inr [] else to_string x) of
        Inl e \<Rightarrow> Inl e
      | Inr s \<Rightarrow>
          (if xs = [] then Inr s
           else (case join_elements xs of Inl e \<Rightarrow> Inl e | Inr t \<Rightarrow> Inr (s @ js '','' @ t))))"

text \<open>
  Reading one of the properties \<open>variants\<close>, \<open>hook\<close>, \<open>caption\<close>, \<open>hashtags\<close> (names that
  no built-in prototype defines): a TypeError on \<open>null\<close>, the own property of an object,
  \<open>undefined\<close> on every other value.
\<close>

definition get_prop :: "json \<Rightarrow> jsstring \<Rightarrow> error + json option" where
  "get_prop v k = (case v of
       JNull \<Rightarrow> Inl TypeError
     | JObj ps \<Rightarrow> Inr (map_of ps k)
     | _ \<Rightarrow> Inr None)"

text \<open>\<open>y.trim()\<close>: only a string has the method; calling it on anything else throws.\<close>

definition call_trim :: "json \<Rightarrow> error + jsstring" where
  "call_trim y = (case y of JStr s \<Rightarrow> Inr (trim s) | _ \<Rightarrow> Inl TypeError)"

text \<open>Sequencing: an exception in the first step skips the rest.\<close>

definition and_then :: "error + 'a \<Rightarrow> ('a \<Rightarrow> error + 'b) \<Rightarrow> error + 'b" where
  "and_then m f = (case m of Inl e \<Rightarrow> Inl e | Inr x \<Rightarrow> f x)"

text \<open>\<open>xs.map(f)\<close> with a callback that may throw: the first exception ends the call.\<close>

fun traverse :: "('a \<Rightarrow> error + 'b) \<Rightarrow> 'a list \<Rightarrow> error + 'b list" where
  "traverse f [] = Inr []"
| "traverse f (x # xs) =
     (case f x of
        Inl e \<Rightarrow> Inl e
      | Inr y \<Rightarrow> (case traverse f xs of Inl e \<Rightarrow> Inl e | Inr ys \<Rightarrow> Inr (y # ys)))"

section \<open>The response normalizer\<close>

text \<open>
  A candidate is what the \<open>try\<close> block or its \<open>catch\<close> builds: hook and caption are
  strings, the hashtags are still arbitrary values. A variant is a cleaned candidate.
\<close>

record candidate =
  c_hook :: jsstring
  c_caption :: jsstring
  c_hashtags :: "json list"

record variant =
  hook :: jsstring
  caption :: jsstring
  hashtags :: "jsstring list"

definition caption_placeholder :: jsstring where
  "caption_placeholder = js ''New post coming soon!''"

definition hook_placeholder :: jsstring where
  "hook_placeholder = js ''New results without extra risk.''"

text \<open>
  The callback of \<open>parsed.variants.map\<close>:
  \<^verbatim>\<open>hook: (v.hook || "").trim(), caption: (v.caption || "").trim(),\<close>
  \<^verbatim>\<open>hashtags: Array.isArray(v.hashtags) ? v.hashtags : []\<close>
\<close>

definition to_candidate :: "json \<Rightarrow> error + candidate" where
  "to_candidate v =
     and_then (get_prop v (js ''hook'')) (\<lambda>h.
     and_then (call_trim (or_else h (JStr []))) (\<lambda>hk.
     and_then (get_prop v (js ''caption'')) (\<lambda>c.
     and_then (call_trim (or_else c (JStr []))) (\<lambda>cp.
     and_then (get_prop v (js ''hashtags'')) (\<lambda>t.
       Inr \<lparr>c_hook = hk, c_caption = cp,
            c_hashtags = (case t of Some (JArr hs) \<Rightarrow> hs | _ \<Rightarrow> [])\<rparr>)))))"

text \<open>The \<open>catch\<close> block: the raw text as the one caption.\<close>

definition raw_fallback :: "jsstring \<Rightarrow> candidate list" where
  "raw_fallback raw = [\<lparr>c_hook = [], c_caption = str_or raw caption_placeholder, c_hashtags = []\<rparr>]"

text \<open>
  \<open>let variants = []; try { ... } catch (e) { ... }\<close>. The second argument is the outcome
  of \<open>JSON.parse(raw)\<close>: \<open>None\<close> when it throws a SyntaxError. Every exception inside the
  block, from the parser or from the mapping, ends in the \<open>catch\<close>; a parsed value
  without an array under \<open>variants\<close> leaves the list empty.
\<close>

definition parse_variants :: "jsstring \<Rightarrow> json option \<Rightarrow> candidate list" where
  "parse_variants raw parsed =
     (case parsed of
        None \<Rightarrow> raw_fallback raw
      | Some p \<Rightarrow>
          (case get_prop p (js ''variants'') of
             Inl e \<Rightarrow> raw_fallback raw
           | Inr (Some (JArr vs)) \<Rightarrow>
               (case traverse to_candidate vs of Inl e \<Rightarrow> raw_fallback raw | Inr cs \<Rightarrow> cs)
           | Inr _ \<Rightarrow> []))"

text \<open>\<open>caption.split(/[\n.!?]/)[0]\<close>: the text before the first delimiter.\<close>

definition is_delimiter :: "unit16 \<Rightarrow> bool" where
  "is_delimiter c \<longleftrightarrow> c \<in> set [0xA, 0x2E, 0x21, 0x3F]"

definition first_segment :: "jsstring \<Rightarrow> jsstring" where
  "first_segment s = takeWhile (\<lambda>c. \<not> is_delimiter c) s"

text \<open>\<^verbatim>\<open>h.startsWith("#") ? h : `#${h.replace(/^#+/, "")}`\<close>\<close>

definition starts_with_hash :: "jsstring \<Rightarrow> bool" where
  "starts_with_hash h = (case h of [] \<Rightarrow> False | c # _ \<Rightarrow> c = hash)"

definition prefix_tag :: "jsstring \<Rightarrow> jsstring" where
  "prefix_tag h = (if starts_with_hash h then h else hash # dropWhile (\<lambda>c. c = hash) h)"

text \<open>
  \<^verbatim>\<open>(v.hashtags || []).map((h) => String(h).trim()).filter((h) => h.length > 0).map(...)\<close>
\<close>

definition string_trim :: "json \<Rightarrow> error + jsstring" where
  "string_trim h = and_then (to_string h) (\<lambda>s. Inr (trim s))"

definition cleanTags :: "json list \<Rightarrow> error + jsstring list" where
  "cleanTags hs =
     and_then (traverse string_trim hs)
       (\<lambda>ts. Inr (map prefix_tag (filter (\<lambda>h. length h > 0) ts)))"

text \<open>The callback of the second \<open>variants.map\<close>, which is outside the inner \<open>try\<close>.\<close>

definition clean :: "candidate \<Rightarrow> error + variant" where
  "clean v =
     (let caption = trim (str_or (c_caption v) caption_placeholder);
          hook0 = trim (str_or (c_hook v) []);
          hook1 = (if hook0 = [] \<and> caption \<noteq> []
                   then take 120 (trim (first_segment caption)) else hook0)
      in and_then (cleanTags (c_hashtags v)) (\<lambda>tags.
           Inr \<lparr>hook = str_or hook1 hook_placeholder, caption = caption, hashtags = tags\<rparr>))"

definition default_variant :: variant where
  "default_variant = \<lparr>hook = hook_placeholder, caption = caption_placeholder, hashtags = []\<rparr>"

text \<open>
  The normalizer: the \<open>try\<close> block, the cleaning pass and the default for an empty list.
  \<open>Inl\<close> is an exception that leaves the pipeline for the handler's outer \<open>catch\<close>.
\<close>

definition normalizer :: "jsstring \<Rightarrow> json option \<Rightarrow> error + variant list" where
  "normalizer raw parsed =
     and_then (traverse clean (parse_variants raw parsed))
       (\<lambda>vs. Inr (if vs = [] then [default_variant] else vs))"

text \<open>
  \<^verbatim>\<open>const raw = chatResponse.choices?.[0]?.message?.content?.trim() || "";\<close>
  The content is absent when any link of the optional chain is.
\<close>

definition raw_of :: "jsstring option \<Rightarrow> jsstring" where
  "raw_of content = (case content of None \<Rightarrow> [] | Some s \<Rightarrow> str_or (trim s) [])"

section \<open>The request handler\<close>

subsection \<open>The variants count\<close>

text \<open>
  \<open>parseInt(string, 10)\<close>: leading white space is skipped, one sign is read, and the
  longest run of decimal digits is the value; with no digit the result is NaN (\<open>None\<close>).
  The value is the mathematical integer. JavaScript rounds it to a double, which leaves
  every comparison with the exact doubles \<open>1\<close> and \<open>3\<close> as it is.
\<close>

definition is_digit :: "unit16 \<Rightarrow> bool" where
  "is_digit c \<longleftrightarrow> 0x30 \<le> c \<and> c \<le> 0x39"

definition digits_value :: "jsstring \<Rightarrow> nat" where
  "digits_value z = foldl (\<lambda>a c. 10 * a + (unat c - 48)) 0 z"

definition parseInt :: "jsstring \<Rightarrow> int option" where
  "parseInt s =
     (let t = dropWhile is_space s;
          negative = (case t of [] \<Rightarrow> False | c # _ \<Rightarrow> c = 0x2D);
          u = (case t of [] \<Rightarrow> [] | c # r \<Rightarrow> if c = 0x2D \<or> c = 0x2B then r else t);
          z = takeWhile is_digit u
      in if z = [] then None
         else Some (if negative then - int (digits_value z) else int (digits_value z)))"

text \<open>
  \<^verbatim>\<open>Math.min(Math.max(parseInt(variantsCount || 2, 10), 1), 3)\<close>
  \<open>parseInt\<close> converts its argument with \<open>ToString\<close>, which may throw; \<open>Math.max\<close> and
  \<open>Math.min\<close> pass NaN on.
\<close>

definition safeVariants :: "json \<Rightarrow> error + int option" where
  "safeVariants variantsCount =
     and_then (to_string (or_else (Some variantsCount) (JNum (num 2))))
       (\<lambda>s. Inr (map_option (\<lambda>n. min (max n 1) 3) (parseInt s)))"

subsection \<open>The prompt\<close>

text \<open>
  \<open>{ ... }[key] || fallback\<close> on an object literal whose values are non-empty strings.
  The key is converted with \<open>ToString\<close>. A key that the literal does not define is looked up
  on \<open>Object.prototype\<close>, whose members are truthy, so the fallback applies to all other
  keys only.
\<close>

datatype directive = Text jsstring | Inherited jsstring

definition object_prototype_keys :: "jsstring list" where
  "object_prototype_keys = map js
     [''constructor'', ''hasOwnProperty'', ''isPrototypeOf'', ''propertyIsEnumerable'',
      ''toLocaleString'', ''toString'', ''valueOf'', ''__proto__'', ''__defineGetter__'',
      ''__defineSetter__'', ''__lookupGetter__'', ''__lookupSetter__'']"

definition lookup_or :: "(jsstring \<times> jsstring) list \<Rightarrow> jsstring \<Rightarrow> json \<Rightarrow> error + directive" where
  "lookup_or table fallback key =
     and_then (to_string key) (\<lambda>k. Inr
       (case map_of table k of
          Some t \<Rightarrow> Text t
        | None \<Rightarrow> if k \<in> set object_prototype_keys then Inherited k else Text fallback))"

definition goal_table :: "(jsstring \<times> jsstring) list" where
  "goal_table =
     [(js ''more_sales'', js ''focus strongly on driving sales and direct response''),
      (js ''more_traffic'', js ''focus on driving clicks and traffic to the store''),
      (js ''leads'',
       js ''focus on generating leads and conversations (DMs, email signups, calls)''),
      (js ''awareness'', js ''focus on brand awareness, trust and positioning'')]"

definition goal_fallback :: jsstring where
  "goal_fallback = js ''focus on driving sales and qualified interest''"

definition audience_table :: "(jsstring \<times> jsstring) list" where
  "audience_table =
     [(js ''ecommerce_store_owners'',
       js ''You are talking directly to e-commerce store owners who care about consistent orders, profit, and low risk.''),
      (js ''local_business'',
       js ''You are talking to local business owners who want more bookings and walk-in customers.''),
      (js ''coaches_consultants'',
       js ''You are talking to coaches and consultants who want more high-quality clients.''),
      (js ''general'', js ''You are talking to online business owners and decision-makers.'')]"

definition audience_fallback :: jsstring where
  "audience_fallback = js ''You are talking directly to e-commerce store owners.''"

definition style_table :: "(jsstring \<times> jsstring) list" where
  "style_table =
     [(js ''social_post'',
       js ''Write it as a social media caption for feeds (Instagram/Facebook/TikTok). Short paragraphs, good line breaks, but still 8''
         @ [0x2013] @ js ''14 sentences overall.''),
      (js ''dm'',
       js ''Write it as a direct message (WhatsApp/DM style). Use a friendly greeting, shorter paragraphs, and make it feel 1:1 and personal.''),
      (js ''email'',
       js ''Write it as an outreach email. Include a natural subject-style hook line (but still put everything in the caption field), a short greeting, body, and a clear sign-off.'')]"

definition style_fallback :: jsstring where
  "style_fallback = js ''Write it as a social media caption for feeds.''"

definition urgencyRule :: "json \<Rightarrow> jsstring" where
  "urgencyRule includeUrgency =
     (if truthy includeUrgency
      then js ''- Add subtle urgency (this season, don't wait until it's too late) without sounding like cheap spam.''
      else js ''- Do NOT use urgency; keep it calm and informational.'')"

definition socialProofRule :: "json \<Rightarrow> jsstring" where
  "socialProofRule includeSocialProof =
     (if truthy includeSocialProof
      then js ''- Add light social proof or credibility (e.g. what other stores experience, typical results, or a common pattern).''
      else js ''- Do NOT use social proof or mention other clients; keep it neutral.'')"

definition mentionAIRule :: "json \<Rightarrow> jsstring" where
  "mentionAIRule mentionAI =
     (if truthy mentionAI
      then js ''- You may mention that the strategy is AI-powered or uses an AI engine, but always as a clear benefit (more consistency, less manual work), not just a tech buzzword.''
      else js ''- Do NOT mention AI, engine, automation or algorithms; speak as if it''
             @ [0x2019] @ js ''s just a powerful strategy/service.'')"

text \<open>
  The destructured request body, an object given by its own properties:
  \<^verbatim>\<open>const { topic, platform = "instagram", tone = "friendly", language = "en",\<close>
  \<^verbatim>\<open>  goal = "more_sales", audience = "ecommerce_store_owners", style = "social_post",\<close>
  \<^verbatim>\<open>  variantsCount = 2, includeUrgency = true, includeSocialProof = true,\<close>
  \<^verbatim>\<open>  mentionAI = true } = req.body;\<close>
\<close>

record params =
  topic :: "json option"
  platform :: json
  tone :: json
  language :: json
  goal :: json
  audience :: json
  style :: json
  variantsCount :: json
  includeUrgency :: json
  includeSocialProof :: json
  mentionAI :: json

definition destructure :: "(jsstring \<times> json) list \<Rightarrow> params" where
  "destructure body =
     \<lparr>topic = map_of body (js ''topic''),
      platform = dflt (JStr (js ''instagram'')) (map_of body (js ''platform'')),
      tone = dflt (JStr (js ''friendly'')) (map_of body (js ''tone'')),
      language = dflt (JStr (js ''en'')) (map_of body (js ''language'')),
      goal = dflt (JStr (js ''more_sales'')) (map_of body (js ''goal'')),
      audience = dflt (JStr (js ''ecommerce_store_owners'')) (map_of body (js ''audience'')),
      style = dflt (JStr (js ''social_post'')) (map_of body (js ''style'')),
      variantsCount = dflt (JNum (num 2)) (map_of body (js ''variantsCount'')),
      includeUrgency = dflt (JBool True) (map_of body (js ''includeUrgency'')),
      includeSocialProof = dflt (JBool True) (map_of body (js ''includeSocialProof'')),
      mentionAI = dflt (JBool True) (map_of body (js ''mentionAI''))\<rparr>"

text \<open>
  The user message is a fixed template with eleven holes; a prompt is the values that fill
  them, in the template's order, the count of variants last. The template's own text, the
  system message, the model name and the temperature are the same for every request.
\<close>

record prompt =
  p_platform :: jsstring
  p_topic :: jsstring
  p_tone :: jsstring
  p_language :: jsstring
  p_goalText :: directive
  p_audienceText :: directive
  p_styleText :: directive
  p_urgencyRule :: jsstring
  p_socialProofRule :: jsstring
  p_mentionAIRule :: jsstring
  p_safeVariants :: "int option"

definition to_string_opt :: "json option \<Rightarrow> error + jsstring" where
  "to_string_opt x = (case x of None \<Rightarrow> Inr (js ''undefined'') | Some v \<Rightarrow> to_string v)"

definition captionPrompt :: "params \<Rightarrow> error + prompt" where
  "captionPrompt q =
     and_then (safeVariants (variantsCount q)) (\<lambda>n.
     and_then (lookup_or goal_table goal_fallback (goal q)) (\<lambda>goalText.
     and_then (lookup_or audience_table audience_fallback (audience q)) (\<lambda>audienceText.
     and_then (lookup_or style_table style_fallback (style q)) (\<lambda>styleText.
     and_then (to_string (platform q)) (\<lambda>pl.
     and_then (to_string_opt (topic q)) (\<lambda>tp.
     and_then (to_string (tone q)) (\<lambda>tn.
     and_then (to_string (language q)) (\<lambda>lg.
       Inr \<lparr>p_platform = pl, p_topic = tp, p_tone = tn, p_language = lg,
            p_goalText = goalText, p_audienceText = audienceText, p_styleText = styleText,
            p_urgencyRule = urgencyRule (includeUrgency q),
            p_socialProofRule = socialProofRule (includeSocialProof q),
            p_mentionAIRule = mentionAIRule (mentionAI q),
            p_safeVariants = n\<rparr>))))))))"

subsection \<open>Responses\<close>

record result =
  r_topic :: "json option"
  r_platform :: json
  r_tone :: json
  r_language :: json
  r_goal :: json
  r_audience :: json
  r_style :: json
  r_variantsCount :: nat
  r_variants :: "variant list"

text \<open>
  The four bodies the route sends: \<open>"topic is required"\<close>, \<open>"OPENAI_API_KEY is not set on
  the server."\<close>, \<open>"Failed to generate post."\<close> with the caught exception, and the success
  object.
\<close>

datatype reply = TopicRequired | KeyMissing | Failed error | Success result

datatype response = Response (status: nat) (payload: reply)

definition is_truthy :: "json option \<Rightarrow> bool" where
  "is_truthy x = (case x of None \<Rightarrow> False | Some v \<Rightarrow> truthy v)"

text \<open>
  \<open>POST /api/generate-post\<close>. The arguments are the credential read at startup
  (\<open>undefined\<close> is \<open>None\<close>), the completion service (it fails, or answers with a content
  that may be absent), \<open>JSON.parse\<close> (\<open>None\<close> where it throws) and the request body. The
  result is the response together with the prompts sent to the completion service, in
  order.
\<close>

definition handler ::
  "jsstring option \<Rightarrow> (prompt \<Rightarrow> error + jsstring option) \<Rightarrow> (jsstring \<Rightarrow> json option) \<Rightarrow>
   (jsstring \<times> json) list \<Rightarrow> response \<times> prompt list" where
  "handler OPENAI_API_KEY create parse body =
     (let q = destructure body in
      if \<not> is_truthy (topic q) then (Response 400 TopicRequired, [])
      else if OPENAI_API_KEY = None \<or> OPENAI_API_KEY = Some [] then (Response 500 KeyMissing, [])
      else
        (case captionPrompt q of
           Inl e \<Rightarrow> (Response 500 (Failed e), [])
         | Inr p \<Rightarrow>
             (case create p of
                Inl e \<Rightarrow> (Response 500 (Failed e), [p])
              | Inr content \<Rightarrow>
                  (let raw = raw_of content in
                   case normalizer raw (parse raw) of
                     Inl e \<Rightarrow> (Response 500 (Failed e), [p])
                   | Inr variants \<Rightarrow>
                       (Response 200 (Success
                          \<lparr>r_topic = topic q, r_platform = platform q, r_tone = tone q,
                           r_language = language q, r_goal = goal q,
                           r_audience = audience q, r_style = style q,
                           r_variantsCount = length variants, r_variants = variants\<rparr>),
                        [p])))))"

section \<open>Vocabulary of the statements\<close>

text \<open>
  The candidate that step 2 of the normalizer's description asks for, written without
  exceptions: a property of an element is read as \<open>undefined\<close> unless the element is an
  object that has it; hook and caption are the trimmed string, or empty; the hashtags are
  the array, or empty.
\<close>

definition field_of :: "json \<Rightarrow> jsstring \<Rightarrow> json option" where
  "field_of v k = (case v of JObj ps \<Rightarrow> map_of ps k | _ \<Rightarrow> None)"

definition text_or_empty :: "json option \<Rightarrow> jsstring" where
  "text_or_empty x = (case x of Some (JStr s) \<Rightarrow> trim s | _ \<Rightarrow> [])"



text \<open>
  A property is textual when it is absent, falsy or a string; an element is mappable when
  it is not \<open>null\<close> and its hook and caption are textual.
\<close>

definition textual :: "json option \<Rightarrow> bool" where
  "textual x = (case x of Some (JStr s) \<Rightarrow> True | _ \<Rightarrow> \<not> is_truthy x)"

definition mappable :: "json \<Rightarrow> bool" where
  "mappable v \<longleftrightarrow>
     v \<noteq> JNull \<and> textual (field_of v (js ''hook'')) \<and> textual (field_of v (js ''caption''))"

section \<open>Example inputs\<close>

text \<open>Each text is given with the value that \<open>JSON.parse\<close> returns for it.\<close>

definition example_text :: jsstring where
  \<open>example_text =
     js ''{"variants":[{"hook":"","caption":"Big sale today. Don't miss it.","hashtags":["sale","##deals"]}]}''\<close>

definition example_json :: json where
  "example_json =
     JObj [(js ''variants'', JArr
       [JObj [(js ''hook'', JStr []),
              (js ''caption'', JStr (js ''Big sale today. Don't miss it.'')),
              (js ''hashtags'', JArr [JStr (js ''sale''), JStr (js ''##deals'')])]])]"

definition opaque_tag_text :: jsstring where
  \<open>opaque_tag_text =
     js ''{"variants":[{"hook":"Hi","caption":"Hello","hashtags":[{"toString":1}]}]}''\<close>

definition opaque_tag_json :: json where
  "opaque_tag_json =
     JObj [(js ''variants'', JArr
       [JObj [(js ''hook'', JStr (js ''Hi'')),
              (js ''caption'', JStr (js ''Hello'')),
              (js ''hashtags'', JArr [JObj [(js ''toString'', JNum (num 1))]])]])]"

definition long_hook :: jsstring where
  "long_hook = replicate 121 0x61"

definition long_hook_text :: jsstring where
  \<open>long_hook_text = js ''{"variants":[{"hook":"'' @ long_hook @ js ''","caption":"Hi"}]}''\<close>

definition long_hook_json :: json where
  "long_hook_json =
     JObj [(js ''variants'', JArr
       [JObj [(js ''hook'', JStr long_hook), (js ''caption'', JStr (js ''Hi''))]])]"



definition orphan_text :: jsstring where
  \<open>orphan_text = js ''{"caption":"Hello"}''\<close>

definition orphan_json :: json where
  "orphan_json = JObj [(js ''caption'', JStr (js ''Hello''))]"



definition plain_text :: jsstring where
  "plain_text = js '' Big sale today. Don't miss it.  ''"

definition plain_variant :: variant where
  "plain_variant =
     \<lparr>hook = js ''Big sale today'', caption = js ''Big sale today. Don't miss it.'',
      hashtags = []\<rparr>"

text \<open>
  A server with a credential, a completion service that answers every prompt with the
  given text, a parser that knows one text and rejects every other, and one that rejects
  every text.
\<close>

definition test_key :: "jsstring option" where
  "test_key = Some (js ''sk-test'')"

definition answering :: "jsstring \<Rightarrow> prompt \<Rightarrow> error + jsstring option" where
  "answering text p = Inr (Some text)"

definition greeting :: "prompt \<Rightarrow> error + jsstring option" where
  "greeting = answering (js ''Hello'')"

definition parsing :: "jsstring \<Rightarrow> json \<Rightarrow> jsstring \<Rightarrow> json option" where
  "parsing text v raw = (if raw = text then Some v else None)"

definition no_parse :: "jsstring \<Rightarrow> json option" where
  "no_parse raw = None"


definition sale_body :: "(jsstring \<times> json) list" where
  "sale_body = [(js ''topic'', JStr (js ''Sale''))]"








section \<open>Strings\<close>

lemma unat_of_char: "unat (of_char c :: unit16) = of_char c"
proof -
  have "(of_char c :: nat) < 256"
    by (metis of_char_mod_256 mod_less_divisor zero_less_numeral)
  then have "(of_char c :: nat) < 2 ^ 16" by (rule less_trans) simp
  then have "(of_char c :: nat) mod 2 ^ 16 = of_char c" by (rule mod_less)
  moreover have "(of_char c :: unit16) = of_nat (of_char c)" by (simp add: of_nat_of_char)
  ultimately show ?thesis by (simp add: unat_of_nat)
qed

lemma inj_unit16_of_char: "inj (of_char :: char \<Rightarrow> unit16)"
proof (rule injI)
  fix c d :: char
  assume "(of_char c :: unit16) = of_char d"
  then have "unat (of_char c :: unit16) = unat (of_char d :: unit16)" by simp
  then show "c = d" by (simp add: unat_of_char)
qed

lemma js_eq_iff [simp]: "js a = js b \<longleftrightarrow> a = b"
  unfolding js_def by (rule inj_map_eq_map [OF inj_unit16_of_char])

lemma js_Nil [simp]: "js [] = []"
  by (simp add: js_def)

lemma js_eq_Nil [simp]: "js a = [] \<longleftrightarrow> a = []" "[] = js a \<longleftrightarrow> a = []"
  by (auto simp: js_def)

lemma trim_Nil [simp]: "trim [] = []"
  by (simp add: trim_def)

text \<open>Stripping the end of a text that starts with no space leaves such a text.\<close>

lemma dropWhile_rev_dropWhile_rev:
  assumes "dropWhile P t = t"
  shows "dropWhile P (rev (dropWhile P (rev t))) = rev (dropWhile P (rev t))"
proof (cases "dropWhile P (rev t) = []")
  case True
  show ?thesis unfolding True by simp
next
  case False
  define w where "w = dropWhile P (rev t)"
  have w: "w \<noteq> []" using False by (simp add: w_def)
  have "rev t = takeWhile P (rev t) @ w" by (simp add: w_def)
  then have t: "t = rev w @ rev (takeWhile P (rev t))"
    by (metis rev_append rev_rev_ident)
  then have "t \<noteq> []" using w by auto
  then have "\<not> P (hd t)" using assms by (metis hd_dropWhile)
  moreover have "hd t = hd (rev w)" using t w by (metis hd_append2 rev_is_Nil_conv)
  ultimately have "\<not> P (hd (rev w))" by simp
  then have "dropWhile P (rev w) = rev w" using w by (cases "rev w") auto
  then show ?thesis by (simp add: w_def)
qed

lemma trim_idem: "trim (trim s) = trim s"
proof -
  have 1: "dropWhile is_space (trim s) = trim s"
    unfolding trim_def by (rule dropWhile_rev_dropWhile_rev) (simp add: dropWhile_idem)
  show ?thesis
    unfolding trim_def[of "trim s"] 1
    by (simp add: trim_def)
qed

lemma caption_placeholder_trimmed: "trim caption_placeholder = caption_placeholder"
  by (simp add: caption_placeholder_def js_def trim_def is_space_def)

lemma caption_placeholder_nonempty: "caption_placeholder \<noteq> []"
  by (simp add: caption_placeholder_def)

lemma hook_placeholder_nonempty: "hook_placeholder \<noteq> []"
  by (simp add: hook_placeholder_def)

lemma hook_placeholder_length: "length hook_placeholder = 31"
  by (simp add: hook_placeholder_def js_def)

lemma str_or_nonempty: "d \<noteq> [] \<Longrightarrow> str_or s d \<noteq> []"
  by (simp add: str_or_def)

lemma raw_of_trimmed: "trim (raw_of content) = raw_of content"
  by (auto simp: raw_of_def str_or_def trim_idem split: option.splits)

section \<open>Mapping with a callback that may throw\<close>

lemma traverse_Inr_set:
  "traverse f xs = Inr ys \<Longrightarrow> y \<in> set ys \<Longrightarrow> \<exists>x \<in> set xs. f x = Inr y"
  by (induction xs arbitrary: ys) (auto split: sum.splits)


section \<open>The candidates\<close>

lemma call_trim_trimmed: "call_trim y = Inr s \<Longrightarrow> trim s = s"
  by (auto simp: call_trim_def trim_idem split: json.splits)

lemma to_candidate_trimmed:
  "to_candidate v = Inr c \<Longrightarrow> trim (c_hook c) = c_hook c \<and> trim (c_caption c) = c_caption c"
  by (auto simp: to_candidate_def and_then_def split: sum.splits dest: call_trim_trimmed)

lemma raw_fallback_trimmed:
  "trim raw = raw \<Longrightarrow> c \<in> set (raw_fallback raw) \<Longrightarrow>
   trim (c_hook c) = c_hook c \<and> trim (c_caption c) = c_caption c"
  by (auto simp: raw_fallback_def str_or_def caption_placeholder_trimmed)

lemma parse_variants_cases:
  "parse_variants raw parsed = raw_fallback raw \<or> parse_variants raw parsed = []
   \<or> (\<exists>vs. traverse to_candidate vs = Inr (parse_variants raw parsed))"
  by (auto simp: parse_variants_def split: option.splits sum.splits json.splits)

text \<open>The handler trims the raw text, so every candidate's hook and caption are trimmed.\<close>

lemma parse_variants_trimmed:
  assumes "trim raw = raw" and "c \<in> set (parse_variants raw parsed)"
  shows "trim (c_hook c) = c_hook c \<and> trim (c_caption c) = c_caption c"
  using parse_variants_cases [of raw parsed] assms
  by (metis raw_fallback_trimmed traverse_Inr_set to_candidate_trimmed empty_iff list.set(1))

lemma get_prop_field_of: "v \<noteq> JNull \<Longrightarrow> get_prop v k = Inr (field_of v k)"
  by (cases v) (simp_all add: get_prop_def field_of_def)

text \<open>
  Claim C4, as the code has it. A raw text that \<open>JSON.parse\<close> rejects, or that parses to
  \<open>null\<close>, gives the one candidate whose caption is the raw text, or
  \<open>"New post coming soon!"\<close> when the raw text is empty, and whose hook and hashtags are
  empty. A text that parses to any other value with no array under \<open>variants\<close> gives no
  candidate at all, and the normalizer's result is then the one default variant: the raw
  text is not used.
\<close>

theorem parse_failure_fallbacks:
  "parse_variants raw None =
     [\<lparr>c_hook = [], c_caption = (if raw = [] then caption_placeholder else raw),
       c_hashtags = []\<rparr>] \<and>
   parse_variants raw (Some JNull) =
     [\<lparr>c_hook = [], c_caption = (if raw = [] then caption_placeholder else raw),
       c_hashtags = []\<rparr>] \<and>
   (p \<noteq> JNull \<and> (\<forall>vs. get_prop p (js ''variants'') \<noteq> Inr (Some (JArr vs))) \<longrightarrow>
      parse_variants raw (Some p) = [] \<and> normalizer raw (Some p) = Inr [default_variant])"
proof (intro conjI impI)
  show "parse_variants raw None =
     [\<lparr>c_hook = [], c_caption = (if raw = [] then caption_placeholder else raw),
       c_hashtags = []\<rparr>]"
    by (simp add: parse_variants_def raw_fallback_def str_or_def)
  show "parse_variants raw (Some JNull) =
     [\<lparr>c_hook = [], c_caption = (if raw = [] then caption_placeholder else raw),
       c_hashtags = []\<rparr>]"
    by (simp add: parse_variants_def get_prop_def raw_fallback_def str_or_def)
next
  assume a: "p \<noteq> JNull \<and> (\<forall>vs. get_prop p (js ''variants'') \<noteq> Inr (Some (JArr vs)))"
  then have g: "get_prop p (js ''variants'') = Inr (field_of p (js ''variants''))"
    by (simp add: get_prop_field_of)
  with a show e: "parse_variants raw (Some p) = []"
    by (auto simp: parse_variants_def split: option.splits json.splits)
  then show "normalizer raw (Some p) = Inr [default_variant]"
    by (simp add: normalizer_def and_then_def)
qed

theorem parse_failure_fallbacks_witness:
  "parse_variants (js ''Hello there'') None =
     [\<lparr>c_hook = [], c_caption = js ''Hello there'', c_hashtags = []\<rparr>] \<and>
   parse_variants [] None = [\<lparr>c_hook = [], c_caption = caption_placeholder, c_hashtags = []\<rparr>] \<and>
   parse_variants (js ''7'') (Some (JNum (num 7))) = [] \<and>
   normalizer (js ''7'') (Some (JNum (num 7))) = Inr [default_variant]"
proof -
  have h: "JNum (num 7) \<noteq> JNull \<and>
      (\<forall>vs. get_prop (JNum (num 7)) (js ''variants'') \<noteq> Inr (Some (JArr vs)))"
    by (simp add: get_prop_def)
  from parse_failure_fallbacks [of "js ''Hello there''" "JNum (num 7)"]
    parse_failure_fallbacks [of "[]" "JNum (num 7)"]
    parse_failure_fallbacks [of "js ''7''" "JNum (num 7)"] h
  show ?thesis by simp
qed

text \<open>
  The claim as stated fails on the text \<open>{"caption":"Hello"}\<close>, an object with no
  \<open>variants\<close>: there is no candidate, and the caption of the result is the placeholder,
  not the raw text.
\<close>

theorem object_without_variants_counterexample:
  "parse_variants orphan_text (Some orphan_json) = [] \<and>
   normalizer orphan_text (Some orphan_json) =
     Inr [\<lparr>hook = js ''New results without extra risk.'', caption = js ''New post coming soon!'',
           hashtags = []\<rparr>]"
  by code_simp

lemma call_trim_or_else:
  "textual x \<Longrightarrow> call_trim (or_else x (JStr [])) = Inr (text_or_empty x)"
  by (auto simp: textual_def call_trim_def or_else_def text_or_empty_def is_truthy_def truthy_def
      split: option.splits json.splits)




text \<open>An element that is not mappable ends the mapping in the \<open>catch\<close> block.\<close>

lemma call_trim_not_textual:
  "\<not> textual x \<Longrightarrow> call_trim (or_else x (JStr [])) = Inl TypeError"
  by (auto simp: textual_def call_trim_def or_else_def is_truthy_def truthy_def
      split: option.splits json.splits)

lemma to_candidate_unmappable:
  assumes "\<not> mappable v"
  shows "to_candidate v = Inl TypeError"
proof (cases "v = JNull")
  case True
  then show ?thesis by (simp add: to_candidate_def get_prop_def and_then_def)
next
  case False
  with assms have "\<not> textual (field_of v (js ''hook'')) \<or> \<not> textual (field_of v (js ''caption''))"
    by (simp add: mappable_def)
  with False show ?thesis
    by (cases "textual (field_of v (js ''hook''))")
      (simp_all add: to_candidate_def and_then_def get_prop_field_of call_trim_or_else
        call_trim_not_textual)
qed

lemma traverse_Inl: "x \<in> set xs \<Longrightarrow> f x = Inl e \<Longrightarrow> \<exists>e'. traverse f xs = Inl e'"
  by (induction xs) (auto split: sum.splits)

lemma unmappable_element_falls_back:
  assumes "get_prop p (js ''variants'') = Inr (Some (JArr vs))"
    and "v \<in> set vs" and "\<not> mappable v"
  shows "parse_variants raw (Some p) = raw_fallback raw"
proof -
  from traverse_Inl [of v vs to_candidate TypeError, OF assms(2) to_candidate_unmappable [OF assms(3)]]
  obtain e where "traverse to_candidate vs = Inl e" by blast
  with assms(1) show ?thesis by (simp add: parse_variants_def)
qed


section \<open>The cleaning pass\<close>

lemma starts_with_hash_prefix_tag: "starts_with_hash (prefix_tag h)"
  by (simp add: prefix_tag_def starts_with_hash_def)

lemma prefix_tag_idem: "prefix_tag (prefix_tag h) = prefix_tag h"
  using starts_with_hash_prefix_tag [of h] by (simp add: prefix_tag_def [of "prefix_tag h"])

lemma cleanTags_start_with_hash:
  "cleanTags hs = Inr ts \<Longrightarrow> t \<in> set ts \<Longrightarrow> starts_with_hash t"
  by (auto simp: cleanTags_def and_then_def starts_with_hash_prefix_tag split: sum.splits)

text \<open>
  Claim C2 holds of the code in part only. Every cleaned tag starts with \<open>#\<close> and prefixing
  twice is prefixing once (the three lemmas above), but a tag that already starts with \<open>#\<close>
  is returned as it is, so the \<open>replace(/^#+/, "")\<close> of the other branch never meets a
  \<open>#\<close>: the tag \<open>##deals\<close> keeps both.
\<close>

theorem double_hash_is_kept:
  "cleanTags [JStr (js ''sale''), JStr (js ''##deals'')] = Inr [js ''#sale'', js ''##deals'']"
  by code_simp

lemma clean_hook_nonempty: "clean c = Inr v \<Longrightarrow> hook v \<noteq> []"
  by (auto simp: clean_def Let_def and_then_def str_or_nonempty hook_placeholder_nonempty
      split: sum.splits)

lemma clean_caption: "clean c = Inr v \<Longrightarrow> caption v = trim (str_or (c_caption c) caption_placeholder)"
  by (auto simp: clean_def Let_def and_then_def split: sum.splits)

lemma clean_supplied_hook:
  "clean c = Inr v \<Longrightarrow> trim (c_hook c) = c_hook c \<Longrightarrow> c_hook c \<noteq> [] \<Longrightarrow> hook v = c_hook c"
  by (auto simp: clean_def Let_def and_then_def str_or_def split: sum.splits)

lemma clean_derived_hook:
  assumes "clean c = Inr v" and "c_hook c = []" and "caption v \<noteq> []"
  shows "hook v = str_or (take 120 (trim (first_segment (caption v)))) hook_placeholder"
  using assms by (auto simp: clean_def Let_def and_then_def str_or_def split: sum.splits)

lemma derived_hook_length:
  "length (str_or (take 120 s) hook_placeholder) \<le> 120"
  by (simp add: str_or_def hook_placeholder_length)

section \<open>The normalizer as a whole\<close>

lemma normalizer_members:
  assumes "normalizer raw parsed = Inr vs" and "v \<in> set vs"
  shows "v = default_variant \<or> (\<exists>c \<in> set (parse_variants raw parsed). clean c = Inr v)"
proof -
  from assms(1) obtain ws where ws: "traverse clean (parse_variants raw parsed) = Inr ws"
    and vs: "vs = (if ws = [] then [default_variant] else ws)"
    by (auto simp: normalizer_def and_then_def split: sum.splits)
  show ?thesis
  proof (cases "ws = []")
    case True
    with vs assms(2) show ?thesis by simp
  next
    case False
    with vs assms(2) have "v \<in> set ws" by simp
    with ws show ?thesis by (blast dest: traverse_Inr_set)
  qed
qed

lemma normalizer_nonempty: "normalizer raw parsed = Inr vs \<Longrightarrow> vs \<noteq> []"
  by (auto simp: normalizer_def and_then_def split: sum.splits if_splits)

text \<open>A text that does not parse never makes the normalizer throw.\<close>

lemma normalizer_absorbs_parse_failure: "\<exists>v. normalizer raw None = Inr [v]"
  by (simp add: normalizer_def parse_variants_def raw_fallback_def clean_def cleanTags_def
      and_then_def Let_def)

text \<open>
  Claim C3, as the code has it. Every variant the normalizer returns has a hook and a
  caption that are not empty. Apart from the default variant it is a cleaned candidate: its
  caption is the candidate's (already trimmed) caption, or \<open>"New post coming soon!"\<close> when
  that is empty; a hook the model supplied is kept as it is, whatever its length; only when
  the candidate has no hook is the hook the first segment of the caption, trimmed and cut to
  120 code units, or \<open>"New results without extra risk."\<close> when that segment is empty, and
  then it has at most 120 code units.
\<close>

theorem variant_hook_and_caption:
  assumes "normalizer (raw_of content) parsed = Inr vs" and "v \<in> set vs"
  shows "hook v \<noteq> [] \<and> caption v \<noteq> [] \<and>
    (v = default_variant \<or>
     (\<exists>c \<in> set (parse_variants (raw_of content) parsed). clean c = Inr v \<and>
        caption v = (if c_caption c = [] then caption_placeholder else c_caption c) \<and>
        (c_hook c \<noteq> [] \<longrightarrow> hook v = c_hook c) \<and>
        (c_hook c = [] \<longrightarrow>
           hook v = str_or (take 120 (trim (first_segment (caption v)))) hook_placeholder \<and>
           length (hook v) \<le> 120)))"
proof (cases "v = default_variant")
  case True
  then show ?thesis
    by (simp add: default_variant_def hook_placeholder_nonempty caption_placeholder_nonempty)
next
  case False
  with normalizer_members [OF assms] obtain c
    where c: "c \<in> set (parse_variants (raw_of content) parsed)" and v: "clean c = Inr v"
    by blast
  have tr: "trim (c_hook c) = c_hook c" "trim (c_caption c) = c_caption c"
    using parse_variants_trimmed [OF raw_of_trimmed c] by simp_all
  have cap: "caption v = (if c_caption c = [] then caption_placeholder else c_caption c)"
    using clean_caption [OF v] tr(2) by (simp add: str_or_def caption_placeholder_trimmed)
  then have ne: "caption v \<noteq> []"
    by (simp add: caption_placeholder_nonempty)
  have sup: "c_hook c \<noteq> [] \<longrightarrow> hook v = c_hook c"
    using clean_supplied_hook [OF v tr(1)] by simp
  have der: "c_hook c = [] \<longrightarrow>
      hook v = str_or (take 120 (trim (first_segment (caption v)))) hook_placeholder \<and>
      length (hook v) \<le> 120"
    using clean_derived_hook [OF v _ ne] derived_hook_length by simp
  from c v cap sup der clean_hook_nonempty [OF v] ne show ?thesis by blast
qed

theorem variant_hook_and_caption_witness:
  "normalizer (raw_of (Some plain_text)) None = Inr [plain_variant] \<and>
   plain_variant \<in> set [plain_variant] \<and>
   hook plain_variant \<noteq> [] \<and> caption plain_variant \<noteq> []"
proof -
  have h: "normalizer (raw_of (Some plain_text)) None = Inr [plain_variant]"
    by code_simp
  have m: "plain_variant \<in> set [plain_variant]"
    by simp
  from variant_hook_and_caption [OF h m] have "hook plain_variant \<noteq> [] \<and> caption plain_variant \<noteq> []"
    by blast
  with h m show ?thesis by blast
qed

text \<open>
  The claim as stated fails on a hook of 121 code units that the model supplies: it is
  returned uncut.
\<close>

theorem long_hook_counterexample:
  "normalizer (raw_of (Some long_hook_text)) (Some long_hook_json) =
     Inr [\<lparr>hook = long_hook, caption = js ''Hi'', hashtags = []\<rparr>] \<and>
   length long_hook = 121"
  by code_simp

text \<open>
  Claim C5 is not what the code computes. On the example of the description the hook is
  \<open>Big sale today\<close> and the caption is unchanged, as claimed, but the second hashtag is
  returned as \<open>##deals\<close>, not as \<open>#deals\<close>.
\<close>

theorem example_keeps_double_hash:
  "normalizer example_text (Some example_json) =
     Inr [\<lparr>hook = js ''Big sale today'', caption = js ''Big sale today. Don't miss it.'',
           hashtags = [js ''#sale'', js ''##deals'']\<rparr>]"
  by code_simp

section \<open>The variants count\<close>

lemma digit_unit: "k < 10 \<Longrightarrow> unat (of_nat (48 + k) :: unit16) = 48 + k"
  by (simp add: unat_of_nat del: of_nat_add)

lemma digit_is_digit: "k < 10 \<Longrightarrow> is_digit (of_nat (48 + k))"
  unfolding is_digit_def word_le_nat_alt by (simp add: digit_unit del: of_nat_add)

lemma is_digit_not_space: "is_digit c \<Longrightarrow> \<not> is_space c"
  unfolding is_digit_def is_space_def word_le_nat_alt by auto

lemma is_digit_not_sign: "is_digit c \<Longrightarrow> c \<noteq> 0x2D \<and> c \<noteq> 0x2B"
  unfolding is_digit_def word_le_nat_alt by auto

lemma digits_nonempty: "digits n \<noteq> []"
  by (subst digits.simps) simp

lemma digits_all_digits: "\<forall>c \<in> set (digits n). is_digit c"
proof (induction n rule: digits.induct)
  case (1 n)
  show ?case
  proof (cases "n < 10")
    case True
    then show ?thesis by (subst digits.simps) (simp add: digit_is_digit del: of_nat_add)
  next
    case False
    have "n mod 10 < 10" by simp
    then have "is_digit (of_nat (48 + n mod 10))" by (rule digit_is_digit)
    with False 1 show ?thesis by (subst digits.simps) (simp del: of_nat_add)
  qed
qed

lemma digits_value_snoc: "digits_value (z @ [c]) = 10 * digits_value z + (unat c - 48)"
  by (simp add: digits_value_def)

lemma digits_value_digits: "digits_value (digits n) = n"
proof (induction n rule: digits.induct)
  case (1 n)
  show ?case
  proof (cases "n < 10")
    case True
    then show ?thesis
      by (subst digits.simps) (simp add: digits_value_def digit_unit del: of_nat_add)
  next
    case False
    have "n mod 10 < 10" by simp
    then have "unat (of_nat (48 + n mod 10) :: unit16) = 48 + n mod 10" by (rule digit_unit)
    with False 1 show ?thesis
      by (subst digits.simps) (simp add: digits_value_snoc del: of_nat_add)
  qed
qed

lemma takeWhile_digits: "takeWhile is_digit (digits n) = digits n"
  using digits_all_digits by (simp add: takeWhile_eq_all_conv)

lemma dropWhile_space_digits: "dropWhile is_space (digits n) = digits n"
  using digits_all_digits [of n] digits_nonempty [of n]
  by (cases "digits n") (auto dest: is_digit_not_space)

lemma hd_digits: "digits n = c # r \<Longrightarrow> c \<noteq> 0x2D \<and> c \<noteq> 0x2B"
  using digits_all_digits [of n] by (auto dest: is_digit_not_sign)

lemma parseInt_digits: "parseInt (digits n) = Some (int n)"
proof -
  obtain c r where cr: "digits n = c # r"
    using digits_nonempty [of n] by (cases "digits n") auto
  have sg: "c \<noteq> 0x2D" "c \<noteq> 0x2B" using hd_digits [OF cr] by simp_all
  have tw: "takeWhile is_digit (c # r) = c # r" using takeWhile_digits [of n] cr by simp
  have dv: "digits_value (c # r) = n" using digits_value_digits [of n] cr by simp
  have dw: "dropWhile is_space (c # r) = c # r" using dropWhile_space_digits [of n] cr by simp
  show ?thesis
    unfolding parseInt_def cr dw Let_def using sg tw dv by simp
qed

lemma minus_not_space: "\<not> is_space 0x2D"
  by (simp add: is_space_def)

lemma parseInt_minus_digits: "parseInt (0x2D # digits n) = Some (- int n)"
proof -
  have dw: "dropWhile is_space (0x2D # digits n) = 0x2D # digits n"
    using minus_not_space by simp
  show ?thesis
    unfolding parseInt_def dw Let_def
    by (simp add: takeWhile_digits digits_value_digits digits_nonempty)
qed

text \<open>\<open>parseInt\<close> reads back the decimal digits that \<open>ToString\<close> writes for an integer.\<close>

lemma parseInt_decimal: "parseInt (decimal n) = Some n"
  by (simp add: decimal_def parseInt_digits parseInt_minus_digits)

lemma safeVariants_integer:
  "safeVariants (JNum (num n)) = Inr (Some (if n = 0 then 2 else min (max n 1) 3))"
  by (simp add: safeVariants_def or_else_def truthy_def num_def and_then_def parseInt_decimal)


section \<open>The handler\<close>

lemma image_num [simp]: "image (num n) = decimal n"
  by (simp add: num_def)

lemma is_zero_num [simp]: "is_zero (num n) \<longleftrightarrow> n = 0"
  by (simp add: num_def)

lemma topic_destructure [simp]: "topic (destructure body) = map_of body (js ''topic'')"
  by (simp add: destructure_def)



text \<open>Past the two guards the handler composes, calls, normalizes and answers.\<close>

lemma handler_accepts:
  assumes "is_truthy (map_of body (js ''topic''))" and "key \<noteq> None" and "key \<noteq> Some []"
  shows "handler key create parse body =
     (case captionPrompt (destructure body) of
        Inl e \<Rightarrow> (Response 500 (Failed e), [])
      | Inr p \<Rightarrow>
          (case create p of
             Inl e \<Rightarrow> (Response 500 (Failed e), [p])
           | Inr content \<Rightarrow>
               (case normalizer (raw_of content) (parse (raw_of content)) of
                  Inl e \<Rightarrow> (Response 500 (Failed e), [p])
                | Inr variants \<Rightarrow>
                    (Response 200 (Success
                       \<lparr>r_topic = topic (destructure body),
                        r_platform = platform (destructure body),
                        r_tone = tone (destructure body),
                        r_language = language (destructure body),
                        r_goal = goal (destructure body),
                        r_audience = audience (destructure body),
                        r_style = style (destructure body),
                        r_variantsCount = length variants, r_variants = variants\<rparr>),
                     [p]))))"
  unfolding handler_def Let_def using assms by (cases key) simp_all



text \<open>An unparsable answer of the completion service ends in a 200 response.\<close>

lemma handler_absorbs_parse_failure:
  assumes "is_truthy (map_of body (js ''topic''))" and "key \<noteq> None" and "key \<noteq> Some []"
    and "captionPrompt (destructure body) = Inr p" and "create p = Inr content"
    and "parse (raw_of content) = None"
  shows "\<exists>r. handler key create parse body = (Response 200 (Success r), [p])"
  using normalizer_absorbs_parse_failure [of "raw_of content"] assms(4-6)
  by (auto simp: handler_accepts [OF assms(1-3)])

text \<open>Facts for running the handler on the example requests.\<close>

lemmas compose_eval =
  captionPrompt_def destructure_def dflt_def safeVariants_integer lookup_or_def and_then_def
  goal_table_def audience_table_def style_table_def object_prototype_keys_def to_string_opt_def
  is_truthy_def truthy_def

lemmas service_eval =
  test_key_def greeting_def answering_def parsing_def no_parse_def


lemma opaque_tag_raw: "raw_of (Some opaque_tag_text) = opaque_tag_text"
  by code_simp

lemma opaque_tag_throws: "normalizer opaque_tag_text (Some opaque_tag_json) = Inl TypeError"
  by code_simp


lemma sale_prompt:
  "\<exists>p. captionPrompt (destructure sale_body) = Inr p \<and> p_topic p = js ''Sale''"
  by (simp add: sale_body_def compose_eval)

text \<open>
  Claim C1 is not what the code does. The cleaning pass runs outside the inner \<open>try\<close>, and
  \<open>String(h)\<close> throws on a hashtag that is an object with a \<open>toString\<close> key. On the answer
  \<open>{"variants":[{"hook":"Hi","caption":"Hello","hashtags":[{"toString":1}]}]}\<close> of the
  completion service the normalizer throws a TypeError, and the handler, which has made its
  one call, answers with status 500 and "Failed to generate post.".
\<close>

theorem opaque_tag_is_a_server_error:
  "normalizer opaque_tag_text (Some opaque_tag_json) = Inl TypeError \<and>
   fst (handler test_key (answering opaque_tag_text) (parsing opaque_tag_text opaque_tag_json)
          sale_body) = Response 500 (Failed TypeError) \<and>
   map p_topic (snd (handler test_key (answering opaque_tag_text)
          (parsing opaque_tag_text opaque_tag_json) sale_body)) = [js ''Sale'']"
proof -
  obtain p where p: "captionPrompt (destructure sale_body) = Inr p" "p_topic p = js ''Sale''"
    using sale_prompt by blast
  have t: "is_truthy (map_of sale_body (js ''topic''))"
    by (simp add: sale_body_def is_truthy_def truthy_def)
  have "handler test_key (answering opaque_tag_text) (parsing opaque_tag_text opaque_tag_json)
          sale_body = (Response 500 (Failed TypeError), [p])"
    by (simp add: handler_accepts [OF t] service_eval p opaque_tag_raw opaque_tag_throws)
  with p opaque_tag_throws show ?thesis by simp
qed
















end
